theory Spec2Isabelle
  imports Main "HOL-Library.AList"
begin

section \<open>Schema documents and the Python operations on them\<close>

text \<open>
  A schema document is an in-memory JSON value.  A mapping is an association list in
  insertion order (a Python dict: keys are unique, iteration follows insertion).  Numbers
  are never inspected by the program, they are represented by integers.
\<close>

datatype json =
    JNull
  | JBool bool
  | JNum int
  | JStr string
  | JList "json list"
  | JObj "(string \<times> json) list"

text \<open>
  The exceptions the program can raise, one constructor for each \<^verbatim>\<open>raise\<close> of
  the source and for each built-in exception an operation of it can throw:
  \<^item> \<open>NotSupported kw\<close>: \<^verbatim>\<open>NotImplementedError("'kw' keyword")\<close>;
  \<^item> \<open>NotSupportedItemsList\<close>: \<^verbatim>\<open>NotImplementedError("'items' keyword as list")\<close>;
  \<^item> \<open>UndefinedClassname\<close>: \<^verbatim>\<open>NotImplementedError("Anonymous class name")\<close>;
  \<^item> \<open>InvalidReference ref\<close>: \<^verbatim>\<open>ValueError("Unrecognized $ref format: 'ref'")\<close>;
  \<^item> \<open>UnresolvedReference ref\<close>: \<^verbatim>\<open>ValueError("$ref='ref' not present in the schema")\<close>;
  \<^item> \<open>UnrecognizedType v\<close>: \<^verbatim>\<open>ValueError("unrecognized type identifier: v")\<close>;
  \<^item> \<open>KeyError k\<close>, \<open>TypeError\<close>, \<open>AttributeError\<close>, \<open>AssertionError\<close>: Python's own.
\<close>

datatype error =
    NotSupported string
  | NotSupportedItemsList
  | UndefinedClassname
  | InvalidReference string
  | UnresolvedReference string
  | UnrecognizedType json
  | KeyError string
  | TypeError
  | AttributeError
  | AssertionError

text \<open>Python truthiness, as \<^verbatim>\<open>context or schema\<close> tests it.\<close>

fun truthy :: "json \<Rightarrow> bool" where
  "truthy JNull = False"
| "truthy (JBool b) = b"
| "truthy (JNum i) = (i \<noteq> 0)"
| "truthy (JStr s) = (s \<noteq> [])"
| "truthy (JList xs) = (xs \<noteq> [])"
| "truthy (JObj kvs) = (kvs \<noteq> [])"

text \<open>\<^verbatim>\<open>sub in s\<close> on strings: \<open>sub\<close> occurs in \<open>s\<close> as a contiguous run.\<close>

definition str_contains :: "string \<Rightarrow> string \<Rightarrow> bool" where
  "str_contains sub s = list_ex (\<lambda>i. take (length sub) (drop i s) = sub) [0..<Suc (length s)]"

text \<open>
  \<^verbatim>\<open>k in x\<close> for a string \<open>k\<close>: key membership on a mapping, element membership on
  a sequence, substring on a string, and a TypeError on everything else.
\<close>

fun py_in :: "string \<Rightarrow> json \<Rightarrow> error + bool" where
  "py_in k (JObj kvs) = Inr (k \<in> set (map fst kvs))"
| "py_in k (JList xs) = Inr (JStr k \<in> set xs)"
| "py_in k (JStr s) = Inr (str_contains k s)"
| "py_in k _ = Inl TypeError"

text \<open>
  \<^verbatim>\<open>x[k]\<close> for a string \<open>k\<close>: a mapping looks the key up and raises KeyError when it
  is missing; a sequence, a string or a scalar raises TypeError.
\<close>

fun py_getitem :: "json \<Rightarrow> string \<Rightarrow> error + json" where
  "py_getitem (JObj kvs) k = (case map_of kvs k of Some v \<Rightarrow> Inr v | None \<Rightarrow> Inl (KeyError k))"
| "py_getitem _ k = Inl TypeError"

text \<open>\<^verbatim>\<open>s.split(sep)\<close> with a one-character separator: never the empty list.\<close>

fun split :: "char \<Rightarrow> string \<Rightarrow> string list" where
  "split sep [] = [[]]"
| "split sep (c # cs) =
     (if c = sep then [] # split sep cs
      else (case split sep cs of [] \<Rightarrow> [[c]] | w # ws \<Rightarrow> (c # w) # ws))"

text \<open>\<^verbatim>\<open>s.lower()\<close>, on ASCII letters; every other byte is kept.\<close>

definition lower_char :: "char \<Rightarrow> char" where
  "lower_char c =
     (let n = (of_char c :: nat) in if 65 \<le> n \<and> n \<le> 90 then char_of (n + 32) else c)"

definition lower :: "string \<Rightarrow> string" where
  "lower s = map lower_char s"

text \<open>\<^verbatim>\<open>sep.join(xs)\<close>.\<close>

fun join :: "string \<Rightarrow> string list \<Rightarrow> string" where
  "join sep [] = []"
| "join sep [x] = x"
| "join sep (x # y # ys) = x @ sep @ join sep (y # ys)"

section \<open>JSONSchema objects\<close>

text \<open>
  A \<^verbatim>\<open>JSONSchema\<close> object.  Objects are never mutated after \<^verbatim>\<open>__init__\<close>, so an
  object is its fields together with \<open>oid\<close>, its identity: Python's \<^verbatim>\<open>a is b\<close> on
  two such objects is equality of their \<open>oid\<close>.  \<open>schema_is_context\<close> records the
  one identity between dictionaries the program tests, \<^verbatim>\<open>self.context is self.schema\<close>.
\<close>

datatype node =
  Node (oid: nat) (schema: json) (context': json) (schema_is_context: bool)
       (parent: "node option") (name: "string option")

text \<open>
  The state of the process: the class attribute \<^verbatim>\<open>_cached_references\<close>, one
  dictionary shared by every object, and the next unused object identity.
\<close>

record pstate =
  cached_references :: "string \<rightharpoonup> node"
  next_oid :: nat

text \<open>
  \<^verbatim>\<open>__init__(schema, context, parent, name)\<close>.  The context argument is \<open>None\<close> or
  the context object, paired with whether it is the very object passed as \<open>schema\<close>.
  \<^verbatim>\<open>self.context = context or schema\<close>: an absent or falsy context is replaced by the
  schema itself.
\<close>

definition JSONSchema :: "json \<Rightarrow> (json \<times> bool) option \<Rightarrow> node option \<Rightarrow> string option
    \<Rightarrow> pstate \<Rightarrow> node \<times> pstate" where
  "JSONSchema sch ctx par nm st =
     (let (c, same) = (case ctx of None \<Rightarrow> (sch, True)
                       | Some (c, same) \<Rightarrow> if truthy c then (c, same) else (sch, True))
      in (Node (next_oid st) sch c same par nm, st\<lparr>next_oid := Suc (next_oid st)\<rparr>))"

text \<open>
  \<^verbatim>\<open>make_child(schema, name)\<close>.  \<open>same\<close> says whether the schema handed in is the
  context object itself.  A document is a finite tree, so this holds only for the value
  at the empty path: every call but the one in \<open>get_reference\<close> passes \<open>False\<close>.
\<close>

definition make_child :: "node \<Rightarrow> json \<Rightarrow> bool \<Rightarrow> string option \<Rightarrow> pstate \<Rightarrow> node \<times> pstate" where
  "make_child self sch same nm st = JSONSchema sch (Some (context' self, same)) (Some self) nm st"

definition attr_defaults :: "(string \<times> json) list" where
  "attr_defaults =
     [(''title'', JStr ''''), (''description'', JStr ''''), (''properties'', JObj []),
      (''definitions'', JObj []), (''default'', JNull), (''examples'', JObj []),
      (''type'', JStr ''object'')]"

text \<open>
  \<^verbatim>\<open>__getattr__\<close>: \<^verbatim>\<open>self.schema.get(attr, default)\<close>; only a mapping has
  \<^verbatim>\<open>get\<close>.
\<close>

definition getattr :: "node \<Rightarrow> string \<Rightarrow> error + json" where
  "getattr self attr =
     (case map_of attr_defaults attr of
        None \<Rightarrow> Inl AttributeError
      | Some d \<Rightarrow>
          (case schema self of
             JObj kvs \<Rightarrow> Inr (case map_of kvs attr of Some v \<Rightarrow> v | None \<Rightarrow> d)
           | _ \<Rightarrow> Inl AttributeError))"

definition is_root :: "node \<Rightarrow> bool" where
  "is_root self = schema_is_context self"

definition is_reference :: "node \<Rightarrow> error + bool" where
  "is_reference self = py_in ''$ref'' (schema self)"

text \<open>\<^verbatim>\<open>self.type != 'object' and not self.is_reference\<close>, evaluated left to right.\<close>

definition is_trait :: "node \<Rightarrow> error + bool" where
  "is_trait self =
     (case getattr self ''type'' of
        Inl e \<Rightarrow> Inl e
      | Inr t \<Rightarrow>
          if t \<noteq> JStr ''object''
          then (case is_reference self of Inl e \<Rightarrow> Inl e | Inr r \<Rightarrow> Inr (\<not> r))
          else Inr False)"

definition is_object :: "node \<Rightarrow> error + bool" where
  "is_object self =
     (case getattr self ''type'' of
        Inl e \<Rightarrow> Inl e
      | Inr t \<Rightarrow>
          if t = JStr ''object''
          then (case is_reference self of Inl e \<Rightarrow> Inl e | Inr r \<Rightarrow> Inr (\<not> r))
          else Inr False)"

text \<open>
  \<^verbatim>\<open>classname\<close>.  \<^verbatim>\<open>if self.name\<close> is a truth test: \<open>None\<close> and the empty
  string both fall through.  \<^verbatim>\<open>self.schema['$ref'].split('/')[-1]\<close> needs a string.
\<close>

definition classname :: "node \<Rightarrow> error + string" where
  "classname self =
     (if name self \<noteq> None \<and> name self \<noteq> Some []
      then Inr (the (name self))
      else if is_root self then Inr ''RootInstance''
      else (case is_reference self of
              Inl e \<Rightarrow> Inl e
            | Inr True \<Rightarrow>
                (case py_getitem (schema self) ''$ref'' of
                   Inl e \<Rightarrow> Inl e
                 | Inr (JStr r) \<Rightarrow> Inr (last (split CHR ''/'' r))
                 | Inr _ \<Rightarrow> Inl AttributeError)
            | Inr False \<Rightarrow> Inl UndefinedClassname))"





section \<open>Wrapping definitions and properties\<close>

text \<open>
  The dictionary comprehensions of \<^verbatim>\<open>wrapped_definitions\<close> and
  \<^verbatim>\<open>wrapped_properties\<close>: one child per item, in order; a key met again keeps its place
  and takes the new value (\<open>AList.update\<close>).
\<close>

fun wrap_definitions :: "node \<Rightarrow> (string \<times> json) list \<Rightarrow> (string \<times> node) list \<Rightarrow> pstate
    \<Rightarrow> (string \<times> node) list \<times> pstate" where
  "wrap_definitions self [] acc st = (acc, st)"
| "wrap_definitions self ((nm, sch) # rest) acc st =
     (case make_child self sch False (Some nm) st of
        (child, st') \<Rightarrow> wrap_definitions self rest (AList.update (lower nm) child acc) st')"

text \<open>\<^verbatim>\<open>self.definitions.items()\<close>: only a mapping has \<^verbatim>\<open>items\<close>.\<close>

definition wrapped_definitions :: "node \<Rightarrow> pstate \<Rightarrow> (error + (string \<times> node) list) \<times> pstate" where
  "wrapped_definitions self st =
     (case getattr self ''definitions'' of
        Inl e \<Rightarrow> (Inl e, st)
      | Inr (JObj kvs) \<Rightarrow> (case wrap_definitions self kvs [] st of (d, st') \<Rightarrow> (Inr d, st'))
      | Inr _ \<Rightarrow> (Inl AttributeError, st))"



section \<open>Resolving references\<close>

text \<open>The loop \<^verbatim>\<open>for key in path[1:]: schema = schema[key]\<close>.\<close>

fun walk :: "json \<Rightarrow> string list \<Rightarrow> error + json" where
  "walk sch [] = Inr sch"
| "walk sch (key # keys) =
     (case py_getitem sch key of Inl e \<Rightarrow> Inl e | Inr sch' \<Rightarrow> walk sch' keys)"

text \<open>
  \<^verbatim>\<open>get_reference(ref, cache)\<close> for a string \<open>ref\<close>.  A stored object is returned as
  it is.  Otherwise the path is split, its head checked, and the context walked; only a
  KeyError of the walk is turned into the ValueError "not present in the schema".  The
  walk starts at the context object, so the schema found is that object exactly when the
  path has no segment after the head.
\<close>

definition get_reference :: "node \<Rightarrow> string \<Rightarrow> bool \<Rightarrow> pstate \<Rightarrow> (error + node) \<times> pstate" where
  "get_reference self ref cache st =
     (case (if cache then cached_references st ref else None) of
        Some stored \<Rightarrow> (Inr stored, st)
      | None \<Rightarrow>
          (let path = split CHR ''/'' ref; nm = last path in
           if hd path \<noteq> ''#'' then (Inl (InvalidReference ref), st)
           else (case walk (context' self) (tl path) of
                   Inl (KeyError k) \<Rightarrow> (Inl (UnresolvedReference ref), st)
                 | Inl e \<Rightarrow> (Inl e, st)
                 | Inr sch \<Rightarrow>
                     (case make_child self sch (tl path = []) (Some nm) st of
                        (wrapped_schema, st') \<Rightarrow>
                          (Inr wrapped_schema,
                           if cache
                           then st'\<lparr>cached_references := (cached_references st')(ref \<mapsto> wrapped_schema)\<rparr>
                           else st')))))"

text \<open>
  The call \<^verbatim>\<open>self.get_reference(x.schema['$ref'])\<close> as the program makes it, with
  the default \<^verbatim>\<open>cache=True\<close>, on whatever value the key holds: a list or a mapping
  cannot be looked up in the cache dictionary (TypeError, unhashable), any other value
  that is not a string has no \<^verbatim>\<open>split\<close> (AttributeError).
\<close>

definition get_reference_of :: "node \<Rightarrow> node \<Rightarrow> pstate \<Rightarrow> (error + node) \<times> pstate" where
  "get_reference_of self x st =
     (case py_getitem (schema x) ''$ref'' of
        Inl e \<Rightarrow> (Inl e, st)
      | Inr (JStr ref) \<Rightarrow> get_reference self ref True st
      | Inr (JList _) \<Rightarrow> (Inl TypeError, st)
      | Inr (JObj _) \<Rightarrow> (Inl TypeError, st)
      | Inr _ \<Rightarrow> (Inl AttributeError, st))"

section \<open>Import lists\<close>






section \<open>Trait code\<close>

text \<open>
  \<^verbatim>\<open>construct_function_call\<close> and \<^verbatim>\<open>Variable\<close> come from a module that is not part
  of the sources at hand, the template engine and the two support files are external.
  They are parameters of the model: \<open>construct_function_call\<close> maps a function name and
  its positional arguments (a JSON value, or a \<open>Variable\<close> holding code) to text;
  \<open>render\<close> maps what the object template reads (import list, class name, base class,
  and the name and trait code of each property) to text.
\<close>

datatype pyarg = Val json | Variable string

record externals =
  construct_function_call :: "string \<Rightarrow> pyarg list \<Rightarrow> string"
  render :: "string list \<Rightarrow> string \<Rightarrow> string \<Rightarrow> (string \<times> string) list \<Rightarrow> string"
  jstraitlets_py :: string
  baseobject_py :: string

definition simple_types :: "string list" where
  "simple_types = [''boolean'', ''null'', ''number'', ''integer'', ''string'']"

definition traitlet_map :: "(string \<times> string) list" where
  "traitlet_map =
     [(''array'', ''jst.JSONArray''), (''boolean'', ''jst.JSONBoolean''),
      (''null'', ''jst.JSONNull''), (''number'', ''jst.JSONNumber''),
      (''integer'', ''jst.JSONInteger''), (''string'', ''jst.JSONString'')]"

text \<open>
  The generator of the union branch: for each entry of the type list, in order, a child
  on the fresh schema \<^verbatim>\<open>{'type': typ}\<close> and its trait code, computed by \<open>tc\<close>.  The
  first failure ends it.  \<open>None\<close> is a computation that does not return.
\<close>

fun union_codes :: "(node \<Rightarrow> pstate \<Rightarrow> ((error + string) \<times> pstate) option) \<Rightarrow> node \<Rightarrow> json list
    \<Rightarrow> pstate \<Rightarrow> ((error + string list) \<times> pstate) option" where
  "union_codes tc self [] st = Some (Inr [], st)"
| "union_codes tc self (typ # typs) st =
     (case make_child self (JObj [(''type'', typ)]) False None st of
        (child, st1) \<Rightarrow>
          (case tc child st1 of
             None \<Rightarrow> None
           | Some (Inl e, st2) \<Rightarrow> Some (Inl e, st2)
           | Some (Inr c, st2) \<Rightarrow>
               (case union_codes tc self typs st2 of
                  None \<Rightarrow> None
                | Some (Inl e, st3) \<Rightarrow> Some (Inl e, st3)
                | Some (Inr cs, st3) \<Rightarrow> Some (Inr (c # cs), st3))))"

text \<open>
  \<^verbatim>\<open>trait_code\<close>.  The property calls itself through references, array items and
  type lists, and a reference can lead back to itself, so the model counts the nesting
  of calls: with \<open>fuel\<close> used up the result is \<open>None\<close>, the computation that does not
  return.  \<^verbatim>\<open>typecode = self.type\<close> comes first and needs a mapping.
\<close>

primrec trait_code :: "externals \<Rightarrow> nat \<Rightarrow> node \<Rightarrow> pstate \<Rightarrow> ((error + string) \<times> pstate) option" where
  "trait_code E 0 self st = None"
| "trait_code E (Suc fuel) self st =
     (case schema self of
        JObj kvs \<Rightarrow>
          (let typecode = (case map_of kvs ''type'' of Some v \<Rightarrow> v | None \<Rightarrow> JStr ''object'') in
           if ''not'' \<in> set (map fst kvs) then Some (Inl (NotSupported ''not''), st)
           else if ''$ref'' \<in> set (map fst kvs) then
             (case get_reference_of self self st of
                (Inl e, st') \<Rightarrow> Some (Inl e, st')
              | (Inr ref, st') \<Rightarrow>
                  (case is_object ref of
                     Inl e \<Rightarrow> Some (Inl e, st')
                   | Inr True \<Rightarrow>
                       (case classname ref of
                          Inl e \<Rightarrow> Some (Inl e, st')
                        | Inr c \<Rightarrow> Some (Inr (''T.Instance('' @ c @ '')''), st'))
                   | Inr False \<Rightarrow> trait_code E fuel ref st'))
           else if ''anyOf'' \<in> set (map fst kvs) then Some (Inl (NotSupported ''anyOf''), st)
           else if ''allOf'' \<in> set (map fst kvs) then Some (Inl (NotSupported ''allOf''), st)
           else if ''oneOf'' \<in> set (map fst kvs) then Some (Inl (NotSupported ''oneOf''), st)
           else if ''enum'' \<in> set (map fst kvs) then
             Some (Inr (construct_function_call E ''jst.JSONEnum'' [Val (the (map_of kvs ''enum''))]), st)
           else if typecode \<in> set (map JStr simple_types) then
             (case typecode of
                JStr t \<Rightarrow>
                  (case map_of traitlet_map t of
                     None \<Rightarrow> Some (Inl (KeyError t), st)
                   | Some cls \<Rightarrow> Some (Inr (construct_function_call E cls []), st))
              | _ \<Rightarrow> Some (Inl TypeError, st))
           else if typecode = JStr ''array'' then
             (case map_of kvs ''items'' of
                None \<Rightarrow> Some (Inl (KeyError ''items''), st)
              | Some (JList _) \<Rightarrow> Some (Inl NotSupportedItemsList, st)
              | Some items \<Rightarrow>
                  (case make_child self items False None st of
                     (child, st1) \<Rightarrow>
                       (case trait_code E fuel child st1 of
                          None \<Rightarrow> None
                        | Some (Inl e, st2) \<Rightarrow> Some (Inl e, st2)
                        | Some (Inr itemtype, st2) \<Rightarrow>
                            Some (Inr (construct_function_call E ''jst.JSONArray'' [Variable itemtype]), st2))))
           else if typecode = JStr ''object'' then
             (case classname self of
                Inl e \<Rightarrow> Some (Inl e, st)
              | Inr c \<Rightarrow> Some (Inr (construct_function_call E ''jst.JSONInstance'' [Val (JStr c)]), st))
           else (case typecode of
                   JList typs \<Rightarrow>
                     (case union_codes (trait_code E fuel) self typs st of
                        None \<Rightarrow> None
                      | Some (Inl e, st') \<Rightarrow> Some (Inl e, st')
                      | Some (Inr cs, st') \<Rightarrow>
                          Some (Inr (construct_function_call E ''jst.JSONUnion''
                                       [Variable (''['' @ join '', '' cs @ '']'')]), st'))
                 | _ \<Rightarrow> Some (Inl (UnrecognizedType typecode), st)))
      | _ \<Rightarrow> Some (Inl AttributeError, st))"

section \<open>Object code and the module specification\<close>






section \<open>The import list, as a function of the document\<close>






section \<open>Concrete inputs\<close>

text \<open>
  The state of a process that has resolved no reference and built no object, and one
  concrete choice of the external parts, to run the model on examples: a call is
  written as the function name followed by the number of its arguments in brackets,
  an artifact as the lines of its import list followed by the class name.
\<close>

definition initial_state :: pstate where
  "initial_state = \<lparr>cached_references = Map.empty, next_oid = 0\<rparr>"

definition plain_externals :: externals where
  "plain_externals =
     \<lparr>construct_function_call = (\<lambda>f args. f @ ''['' @ replicate (length args) CHR ''*'' @ '']''),
      render = (\<lambda>imps cn bc flds. join [CHR 0x0A] (imps @ [cn])),
      jstraitlets_py = ''jstraitlets'',
      baseobject_py = ''baseobject''\<rparr>"

text \<open>
  The document of the specification's example, with an object-typed definition \<open>A\<close>
  and a string-typed definition \<open>B\<close>; its root object, built by
  \<^verbatim>\<open>JSONSchema(example_document)\<close> in a fresh process, and the state after that.
\<close>

definition example_document :: json where
  "example_document =
     JObj [(''definitions'',
            JObj [(''A'', JObj [(''type'', JStr ''object''), (''properties'', JObj [])]),
                  (''B'', JObj [(''type'', JStr ''string'')])])]"

definition example_root :: node where
  "example_root = fst (JSONSchema example_document None None None initial_state)"

definition example_state :: pstate where
  "example_state = snd (JSONSchema example_document None None None initial_state)"





section \<open>Auxiliary facts\<close>


lemma is_reference_mapping:
  "schema self = JObj kvs \<Longrightarrow> is_reference self = Inr (''$ref'' \<in> set (map fst kvs))"
  by (simp add: is_reference_def)

lemma key_in_iff: "k \<in> fst ` set kvs \<longleftrightarrow> map_of kvs k \<noteq> None"
  by (simp add: map_of_eq_None_iff)

lemma getattr_type:
  "schema self = JObj kvs \<Longrightarrow>
   getattr self ''type'' = Inr (case map_of kvs ''type'' of Some v \<Rightarrow> v | None \<Rightarrow> JStr ''object'')"
  by (simp add: getattr_def attr_defaults_def)

section \<open>Classification of nodes\<close>

text \<open>
  Claim C9.  On every node whose schema is a mapping, the three predicates
  \<open>is_trait\<close>, \<open>is_object\<close> and \<open>is_reference\<close> return, and exactly one of them
  holds: \<open>is_reference\<close> holds iff the key \<^verbatim>\<open>$ref\<close> is present; without it,
  \<open>is_object\<close> holds iff the defaulted type is \<^verbatim>\<open>"object"\<close> (also when the key
  \<^verbatim>\<open>type\<close> is absent), and \<open>is_trait\<close> holds otherwise.
\<close>

theorem classification_exactly_one:
  assumes "schema self = JObj kvs"
  shows "\<exists>t ob r.
           is_trait self = Inr t \<and> is_object self = Inr ob \<and> is_reference self = Inr r \<and>
           (r \<longleftrightarrow> ''$ref'' \<in> set (map fst kvs)) \<and>
           (ob \<longleftrightarrow> \<not> r \<and> (case map_of kvs ''type'' of None \<Rightarrow> True | Some v \<Rightarrow> v = JStr ''object'')) \<and>
           (t \<longleftrightarrow> \<not> r \<and> \<not> ob) \<and>
           (t \<or> ob \<or> r) \<and> \<not> (t \<and> ob) \<and> \<not> (t \<and> r) \<and> \<not> (ob \<and> r)"
  using assms
  by (auto simp: is_trait_def is_object_def getattr_type is_reference_mapping split: option.splits)

theorem classification_exactly_one_witness:
  "is_trait (Node 0 (JObj [(''type'', JStr ''string'')]) JNull False None None) = Inr True \<and>
   is_object (Node 0 (JObj [(''type'', JStr ''string'')]) JNull False None None) = Inr False \<and>
   is_reference (Node 0 (JObj [(''type'', JStr ''string'')]) JNull False None None) = Inr False \<and>
   is_object (Node 1 (JObj []) JNull False None None) = Inr True \<and>
   is_reference (Node 2 (JObj [(''$ref'', JStr ''#/definitions/A'')]) JNull False None None) = Inr True"
  using classification_exactly_one [of "Node 0 (JObj [(''type'', JStr ''string'')]) JNull False None None"
      "[(''type'', JStr ''string'')]"]
    classification_exactly_one [of "Node 1 (JObj []) JNull False None None" "[]"]
    classification_exactly_one [of "Node 2 (JObj [(''$ref'', JStr ''#/definitions/A'')]) JNull False None None"
      "[(''$ref'', JStr ''#/definitions/A'')]"]
  by auto

section \<open>Class names\<close>

text \<open>
  Claim C7, as stated, fails where an explicit name is the empty string: the child that
  \<open>wrapped_definitions\<close> builds for a definition stored under the key \<^verbatim>\<open>""\<close> has
  the name \<^verbatim>\<open>""\<close> set, and \<open>classname\<close> does not return it but raises.
\<close>

theorem classname_empty_name_counterexample:
  "(case JSONSchema (JObj [(''definitions'', JObj [('''', JObj [(''type'', JStr ''object'')])])]) None None None
           \<lparr>cached_references = Map.empty, next_oid = 0\<rparr> of
      (root, st) \<Rightarrow>
        (case wrapped_definitions root st of
           (Inr [(k, child)], st') \<Rightarrow> name child = Some '''' \<and> classname child = Inl UndefinedClassname
         | _ \<Rightarrow> False))"
  by (simp add: JSONSchema_def wrapped_definitions_def getattr_def attr_defaults_def make_child_def
        classname_def is_root_def is_reference_def lower_def)

text \<open>
  Claim C7, amended.  On a node whose schema is a mapping, \<open>classname\<close> returns the
  explicit name if one is set and is not empty; otherwise \<^verbatim>\<open>"RootInstance"\<close> if the
  node is root; otherwise the final segment of the \<^verbatim>\<open>$ref\<close> string if the node is a
  reference (AttributeError when the value under \<^verbatim>\<open>$ref\<close> is not a string); otherwise
  it fails with \<open>UndefinedClassname\<close>.  In particular it fails so on a node built by
  \<open>make_child\<close> with no name that is not root and has no \<^verbatim>\<open>$ref\<close>.
\<close>

theorem classname_cases:
  assumes "schema self = JObj kvs"
  shows "classname self =
           (case name self of
              Some (c # cs) \<Rightarrow> Inr (c # cs)
            | _ \<Rightarrow>
                if is_root self then Inr ''RootInstance''
                else (case map_of kvs ''$ref'' of
                        Some (JStr r) \<Rightarrow> Inr (last (split CHR ''/'' r))
                      | Some _ \<Rightarrow> Inl AttributeError
                      | None \<Rightarrow> Inl UndefinedClassname))
         \<and> (\<forall>p st st'.
               make_child p (JObj kvs) False None st = (self, st') \<and>
               \<not> is_root self \<and> ''$ref'' \<notin> set (map fst kvs)
               \<longrightarrow> classname self = Inl UndefinedClassname)"
proof (intro conjI allI impI)
  show "classname self =
           (case name self of
              Some (c # cs) \<Rightarrow> Inr (c # cs)
            | _ \<Rightarrow>
                if is_root self then Inr ''RootInstance''
                else (case map_of kvs ''$ref'' of
                        Some (JStr r) \<Rightarrow> Inr (last (split CHR ''/'' r))
                      | Some _ \<Rightarrow> Inl AttributeError
                      | None \<Rightarrow> Inl UndefinedClassname))"
    using assms
    by (auto simp: classname_def is_reference_mapping key_in_iff
          split: option.splits list.splits json.splits)
next
  fix p st st'
  assume a: "make_child p (JObj kvs) False None st = (self, st') \<and>
               \<not> is_root self \<and> ''$ref'' \<notin> set (map fst kvs)"
  then have "name self = None"
    by (auto simp: make_child_def JSONSchema_def Let_def split: if_splits)
  with a assms show "classname self = Inl UndefinedClassname"
    by (simp add: classname_def is_reference_mapping)
qed

theorem classname_cases_witness:
  "classname (Node 1 (JObj [(''$ref'', JStr ''#/definitions/Foo'')]) (JObj [(''a'', JNull)]) False None None)
     = Inr ''Foo'' \<and>
   classname (fst (make_child (Node 0 (JObj [(''a'', JNull)]) (JObj [(''a'', JNull)]) True None None)
                (JObj [(''type'', JStr ''string'')]) False None \<lparr>cached_references = Map.empty, next_oid = 1\<rparr>))
     = Inl UndefinedClassname"
proof -
  let ?n = "Node 1 (JObj [(''$ref'', JStr ''#/definitions/Foo'')]) (JObj [(''a'', JNull)]) False None None"
  let ?p = "Node 0 (JObj [(''a'', JNull)]) (JObj [(''a'', JNull)]) True None None"
  let ?st = "\<lparr>cached_references = Map.empty, next_oid = 1\<rparr>"
  let ?c = "fst (make_child ?p (JObj [(''type'', JStr ''string'')]) False None ?st)"
  have 1: "classname ?n = Inr ''Foo''"
    using classname_cases [of ?n "[(''$ref'', JStr ''#/definitions/Foo'')]"]
    by (simp add: is_root_def)
  have c: "schema ?c = JObj [(''type'', JStr ''string'')]" "\<not> is_root ?c"
    "make_child ?p (JObj [(''type'', JStr ''string'')]) False None ?st
       = (?c, snd (make_child ?p (JObj [(''type'', JStr ''string'')]) False None ?st))"
    by (simp_all add: make_child_def JSONSchema_def is_root_def)
  have 2: "classname ?c = Inl UndefinedClassname"
    using classname_cases [OF c(1), THEN conjunct2, rule_format, OF conjI [OF c(3) conjI [OF c(2)]]]
    by simp
  from 1 2 show ?thesis by simp
qed

section \<open>Arrays without items\<close>

text \<open>
  Claim C10.  On a node with none of the keys \<^verbatim>\<open>not\<close>, \<^verbatim>\<open>$ref\<close>, \<^verbatim>\<open>anyOf\<close>,
  \<^verbatim>\<open>allOf\<close>, \<^verbatim>\<open>oneOf\<close>, \<^verbatim>\<open>enum\<close> whose type is \<^verbatim>\<open>"array"\<close> and which has
  no key \<^verbatim>\<open>items\<close>, the trait code fails with the raw \<open>KeyError\<close> of the lookup
  \<^verbatim>\<open>self.schema['items']\<close>, which is none of the five error conditions of the
  specification.
\<close>

theorem array_without_items:
  assumes "schema self = JObj kvs"
    and "''not'' \<notin> set (map fst kvs)" and "''$ref'' \<notin> set (map fst kvs)"
    and "''anyOf'' \<notin> set (map fst kvs)" and "''allOf'' \<notin> set (map fst kvs)"
    and "''oneOf'' \<notin> set (map fst kvs)" and "''enum'' \<notin> set (map fst kvs)"
    and "map_of kvs ''type'' = Some (JStr ''array'')"
    and "''items'' \<notin> set (map fst kvs)"
  shows "trait_code E (Suc fuel) self st = Some (Inl (KeyError ''items''), st)
         \<and> (\<forall>kw. KeyError ''items'' \<noteq> NotSupported kw) \<and> KeyError ''items'' \<noteq> NotSupportedItemsList
         \<and> (\<forall>r. KeyError ''items'' \<noteq> InvalidReference r)
         \<and> (\<forall>r. KeyError ''items'' \<noteq> UnresolvedReference r)
         \<and> KeyError ''items'' \<noteq> UndefinedClassname
         \<and> (\<forall>v. KeyError ''items'' \<noteq> UnrecognizedType v)"
proof -
  have "map_of kvs ''items'' = None"
    using assms(9) by (simp add: map_of_eq_None_iff)
  with assms show ?thesis
    by (simp add: simple_types_def)
qed

theorem array_without_items_witness:
  "trait_code plain_externals (Suc 0)
     (Node 0 (JObj [(''type'', JStr ''array'')]) (JObj [(''type'', JStr ''array'')]) True None None)
     initial_state
     = Some (Inl (KeyError ''items''), initial_state)"
  using array_without_items [of "Node 0 (JObj [(''type'', JStr ''array'')]) (JObj [(''type'', JStr ''array'')]) True None None"
      "[(''type'', JStr ''array'')]" plain_externals 0 initial_state]
  by simp

section \<open>Resolving the same reference twice\<close>

lemma example_root_simps:
  "example_root = Node 0 example_document example_document True None None"
  "example_state = \<lparr>cached_references = Map.empty, next_oid = Suc 0\<rparr>"
  by (simp_all add: example_root_def example_state_def JSONSchema_def initial_state_def)

lemma get_reference_cached:
  "cached_references st ref = Some n \<Longrightarrow> get_reference self ref True st = (Inr n, st)"
  by (simp add: get_reference_def)

lemma get_reference_stores:
  assumes "get_reference self ref True st = (Inr n, st1)"
  shows "cached_references st1 ref = Some n"
  using assms
  by (auto simp: get_reference_def Let_def split: option.splits if_splits sum.splits error.splits prod.splits)

lemma get_reference_uncached_state:
  assumes "get_reference self ref False st = (Inr n, st1)"
  shows "\<exists>sch. walk (context' self) (tl (split CHR ''/'' ref)) = Inr sch \<and> hd (split CHR ''/'' ref) = ''#'' \<and>
           (n, st1) = make_child self sch (tl (split CHR ''/'' ref) = []) (Some (last (split CHR ''/'' ref))) st"
  using assms
  by (auto simp: get_reference_def Let_def split: option.splits if_splits sum.splits error.splits prod.splits)

text \<open>
  Claim C5.  Resolving a reference string twice, with nothing between the two calls.
  With caching, a first call that returns an object leaves it stored, and the second call
  (from any object) returns that very object, the same \<open>oid\<close>, and changes nothing: it
  does not walk.  Without caching, the second call returns as the first does, an object
  with the same schema, context, parent and name, but a new object.
\<close>

theorem get_reference_twice:
  "(get_reference self ref True st = (Inr n, st1) \<longrightarrow>
      (\<forall>self'. get_reference self' ref True st1 = (Inr n, st1)))
   \<and> (get_reference self ref False st = (Inr n, st1) \<longrightarrow>
      (\<exists>n2 st2. get_reference self ref False st1 = (Inr n2, st2) \<and>
          schema n2 = schema n \<and> context' n2 = context' n \<and>
          schema_is_context n2 = schema_is_context n \<and> parent n2 = parent n \<and>
          name n2 = name n \<and> oid n2 \<noteq> oid n))"
proof (intro conjI impI allI)
  fix self'
  assume "get_reference self ref True st = (Inr n, st1)"
  then have "cached_references st1 ref = Some n" by (rule get_reference_stores)
  then show "get_reference self' ref True st1 = (Inr n, st1)" by (rule get_reference_cached)
next
  assume a: "get_reference self ref False st = (Inr n, st1)"
  from get_reference_uncached_state [OF a] obtain sch where
    w: "walk (context' self) (tl (split CHR ''/'' ref)) = Inr sch" "hd (split CHR ''/'' ref) = ''#''"
    and m: "(n, st1) = make_child self sch (tl (split CHR ''/'' ref) = []) (Some (last (split CHR ''/'' ref))) st"
    by blast
  obtain n2 st2 where
    m2: "make_child self sch (tl (split CHR ''/'' ref) = []) (Some (last (split CHR ''/'' ref))) st1 = (n2, st2)"
    by (cases "make_child self sch (tl (split CHR ''/'' ref) = []) (Some (last (split CHR ''/'' ref))) st1")
  have g: "get_reference self ref False st1 = (Inr n2, st2)"
    using w m2 by (simp add: get_reference_def Let_def)
  have "schema n2 = schema n \<and> context' n2 = context' n \<and>
          schema_is_context n2 = schema_is_context n \<and> parent n2 = parent n \<and>
          name n2 = name n \<and> oid n2 \<noteq> oid n"
    using m m2 by (auto simp: make_child_def JSONSchema_def Let_def split: if_splits)
  with g show "\<exists>n2 st2. get_reference self ref False st1 = (Inr n2, st2) \<and>
          schema n2 = schema n \<and> context' n2 = context' n \<and>
          schema_is_context n2 = schema_is_context n \<and> parent n2 = parent n \<and>
          name n2 = name n \<and> oid n2 \<noteq> oid n"
    by blast
qed

theorem get_reference_twice_witness:
  "(case get_reference example_root ''#/definitions/A'' True example_state of
      (Inr n, st1) \<Rightarrow> get_reference example_root ''#/definitions/A'' True st1 = (Inr n, st1)
    | (Inl e, st1) \<Rightarrow> False)
   \<and> (case get_reference example_root ''#/definitions/A'' False example_state of
      (Inr n, st1) \<Rightarrow>
        (case get_reference example_root ''#/definitions/A'' False st1 of
           (Inr n2, st2) \<Rightarrow> schema n2 = schema n \<and> oid n2 \<noteq> oid n
         | (Inl e, st2) \<Rightarrow> False)
    | (Inl e, st1) \<Rightarrow> False)"
proof -
  obtain n st1 where c: "get_reference example_root ''#/definitions/A'' True example_state = (Inr n, st1)"
    by (simp add: get_reference_def example_root_simps example_document_def make_child_def JSONSchema_def)
  obtain m su1 where u: "get_reference example_root ''#/definitions/A'' False example_state = (Inr m, su1)"
    by (simp add: get_reference_def example_root_simps example_document_def make_child_def JSONSchema_def)
  have 1: "get_reference example_root ''#/definitions/A'' True st1 = (Inr n, st1)"
    using get_reference_twice [of example_root "''#/definitions/A''" example_state n st1] c by simp
  obtain m2 su2 where 2: "get_reference example_root ''#/definitions/A'' False su1 = (Inr m2, su2)"
      "schema m2 = schema m" "oid m2 \<noteq> oid m"
    using get_reference_twice [of example_root "''#/definitions/A''" example_state m su1] u by auto
  show ?thesis using c u 1 2 by simp
qed

section \<open>References in trait code\<close>

lemma get_reference_of_string:
  "schema x = JObj kvs \<Longrightarrow> map_of kvs ''$ref'' = Some (JStr r) \<Longrightarrow>
   get_reference_of self x st = get_reference self r True st"
  by (simp add: get_reference_of_def)

text \<open>
  Claim C6.  On a node with the key \<^verbatim>\<open>$ref\<close> (a string) and without \<^verbatim>\<open>not\<close>, the
  trait code resolves the reference (a failure of the resolution is the failure of the
  trait code); when the target \<^verbatim>\<open>is_object\<close> it is the object reference
  \<^verbatim>\<open>T.Instance(classname)\<close> on the target's class name; otherwise it is the target's
  own trait code, computed one call deeper in the state the resolution left.
\<close>

theorem ref_trait_code:
  assumes "schema self = JObj kvs" and "''not'' \<notin> set (map fst kvs)"
    and "map_of kvs ''$ref'' = Some (JStr r)"
  shows "(\<forall>e st'. get_reference self r True st = (Inl e, st') \<longrightarrow>
            trait_code E (Suc fuel) self st = Some (Inl e, st'))
       \<and> (\<forall>tgt st'. get_reference self r True st = (Inr tgt, st') \<and> is_object tgt = Inr True \<longrightarrow>
            trait_code E (Suc fuel) self st =
              (case classname tgt of
                 Inl e \<Rightarrow> Some (Inl e, st')
               | Inr c \<Rightarrow> Some (Inr (''T.Instance('' @ c @ '')''), st')))
       \<and> (\<forall>tgt st'. get_reference self r True st = (Inr tgt, st') \<and> is_object tgt = Inr False \<longrightarrow>
            trait_code E (Suc fuel) self st = trait_code E fuel tgt st')"
proof -
  have k: "''$ref'' \<in> set (map fst kvs)"
    using assms(3) by (metis key_in_iff option.distinct(1) set_map)
  show ?thesis
    using assms k by (simp add: get_reference_of_string Let_def)
qed

theorem ref_trait_code_witness:
  "(case make_child example_root (JObj [(''$ref'', JStr ''#/definitions/A'')]) False None example_state of
      (x, st) \<Rightarrow> map_option fst (trait_code plain_externals 2 x st) = Some (Inr ''T.Instance(A)''))
   \<and> (case make_child example_root (JObj [(''$ref'', JStr ''#/definitions/B'')]) False None example_state of
      (x, st) \<Rightarrow> map_option fst (trait_code plain_externals 2 x st) = Some (Inr ''jst.JSONString[]''))"
proof -
  let ?st = "\<lparr>cached_references = Map.empty, next_oid = Suc (Suc 0)\<rparr>"
  let ?a = "Node 1 (JObj [(''$ref'', JStr ''#/definitions/A'')]) example_document False (Some example_root) None"
  let ?b = "Node 1 (JObj [(''$ref'', JStr ''#/definitions/B'')]) example_document False (Some example_root) None"
  have ma: "make_child example_root (JObj [(''$ref'', JStr ''#/definitions/A'')]) False None example_state = (?a, ?st)"
    and mb: "make_child example_root (JObj [(''$ref'', JStr ''#/definitions/B'')]) False None example_state = (?b, ?st)"
    by (simp_all add: make_child_def JSONSchema_def example_root_simps example_document_def)
  obtain ta sa where a: "get_reference ?a ''#/definitions/A'' True ?st = (Inr ta, sa)"
    "is_object ta = Inr True" "classname ta = Inr ''A''"
    by (simp add: get_reference_def example_root_simps example_document_def make_child_def
          JSONSchema_def is_object_def is_reference_def getattr_def attr_defaults_def classname_def)
  obtain tb sb where b: "get_reference ?b ''#/definitions/B'' True ?st = (Inr tb, sb)"
    "is_object tb = Inr False" "trait_code plain_externals 1 tb sb = Some (Inr ''jst.JSONString[]'', sb)"
    by (simp add: get_reference_def example_root_simps example_document_def make_child_def
          JSONSchema_def is_object_def is_reference_def getattr_def attr_defaults_def
          simple_types_def traitlet_map_def plain_externals_def Let_def)
  have 1: "trait_code plain_externals (Suc 1) ?a ?st = Some (Inr ''T.Instance(A)'', sa)"
    using ref_trait_code [of ?a "[(''$ref'', JStr ''#/definitions/A'')]" "''#/definitions/A''"
        ?st plain_externals 1] a
    by simp
  have 2: "trait_code plain_externals (Suc 1) ?b ?st = Some (Inr ''jst.JSONString[]'', sb)"
    using ref_trait_code [of ?b "[(''$ref'', JStr ''#/definitions/B'')]" "''#/definitions/B''"
        ?st plain_externals 1] b
    by simp
  from 1 2 ma mb show ?thesis by (simp del: trait_code.simps add: numeral_2_eq_2)
qed

section \<open>Unsupported keywords\<close>














section \<open>The module specification of the example document\<close>


section \<open>Paths that leave the mappings\<close>

text \<open>
  Claim C4 at the reference \<^verbatim>\<open>#/definitions/B/type/x\<close> of the example document.  The
  walk reaches the string \<^verbatim>\<open>"string"\<close> under \<^verbatim>\<open>type\<close> and indexes it with
  \<^verbatim>\<open>x\<close>: Python raises TypeError there, the handler catches KeyError only, and the
  caller sees the TypeError, with or without caching.  A segment missing from a mapping,
  as in \<^verbatim>\<open>#/definitions/C\<close>, gives \<open>UnresolvedReference\<close> with the full string.
\<close>

theorem get_reference_through_string:
  "get_reference example_root ''#/definitions/B/type/x'' True example_state
     = (Inl TypeError, example_state)
   \<and> get_reference example_root ''#/definitions/B/type/x'' False example_state
     = (Inl TypeError, example_state)
   \<and> get_reference example_root ''#/definitions/C'' True example_state
     = (Inl (UnresolvedReference ''#/definitions/C''), example_state)"
  by (simp add: get_reference_def example_root_simps example_document_def)

section \<open>Unrecognized types\<close>










section \<open>The import list of an object\<close>













end
